theory Spec2Isabelle
  imports Main "HOL-Library.Word"
begin

section \<open>Pool configuration of a stratum connection (src/base/net/stratum/Pool.cpp)\<close>

text \<open>
  The development embeds the class \<open>xmrig::Pool\<close>: its three constructors, \<open>isEnabled\<close>,
  \<open>isEqual\<close>, \<open>toJSON\<close> and \<open>printableName\<close>. The file Pool.cpp uses several classes whose
  sources are elsewhere (\<open>Url\<close>, \<open>String\<close>, \<open>Json\<close>, the header Pool.h, the logging macros).
  The \<open>Url\<close> class, the numeric constants, the build features and the escape sequences are
  parameters of the model, collected in one record, so that every general statement holds
  for any implementation of them. The small helpers are modelled from the specification
  and marked as such.
\<close>

subsection \<open>Data model\<close>

text \<open>\<open>enum Mode\<close> of the class.\<close>

datatype Mode = MODE_POOL | MODE_DAEMON | MODE_SELF_SELECT

text \<open>
  The positions of the \<open>std::bitset\<close> \<open>m_flags\<close> that Pool.cpp reads and writes. The
  bitset is the set of the positions whose bit is 1.
\<close>

datatype Flag = FLAG_ENABLED | FLAG_TLS

definition bitset_set :: "Flag \<Rightarrow> bool \<Rightarrow> Flag set \<Rightarrow> Flag set" where
  "bitset_set f b S = (if b then insert f S else S - {f})"

definition bitset_test :: "Flag \<Rightarrow> Flag set \<Rightarrow> bool" where
  "bitset_test f S = (f \<in> S)"

text \<open>
  \<open>xmrig::String\<close> holds a C string or the null pointer: \<open>None\<close> is the null string.
  Equality of two \<open>String\<close>s is equality of these values.
\<close>

type_synonym String = "string option"

text \<open>
  A \<open>rapidjson::Value\<close>. A number is kept as the integer it denotes; \<open>IsInt\<close> and
  \<open>IsUint64\<close> are its range tests. An object is the list of its members in insertion
  order (\<open>AddMember\<close> appends, \<open>FindMember\<close> returns the first match).
\<close>

datatype json =
    JNull
  | JBool bool
  | JNum int
  | JString string
  | JArray "json list"
  | JObject "(string \<times> json) list"

type_synonym json_object = "(string \<times> json) list"

definition IsInt :: "json \<Rightarrow> bool" where
  "IsInt v = (case v of JNum n \<Rightarrow> - (2 ^ 31) \<le> n \<and> n < 2 ^ 31 | _ \<Rightarrow> False)"

definition GetInt :: "json \<Rightarrow> 32 word" where
  "GetInt v = (case v of JNum n \<Rightarrow> word_of_int n | _ \<Rightarrow> 0)"

definition IsBool :: "json \<Rightarrow> bool" where
  "IsBool v = (case v of JBool b \<Rightarrow> True | _ \<Rightarrow> False)"

definition GetBool :: "json \<Rightarrow> bool" where
  "GetBool v = (case v of JBool b \<Rightarrow> b | _ \<Rightarrow> False)"

text \<open>
  The class members of \<open>Pool\<close>, under the names of Pool.cpp. \<open>m_keepAlive\<close> is a C \<open>int\<close>
  (read as signed through \<open>sint\<close>), \<open>m_pollInterval\<close> a \<open>uint64_t\<close>. The two endpoints
  \<open>m_url\<close> and \<open>m_daemon\<close> are values of the class \<open>Url\<close>, the type parameter \<open>'u\<close>; two
  values of \<open>'u\<close> are equal when the \<open>operator==\<close> of \<open>Url\<close> holds.
\<close>

record 'u Pool =
  m_keepAlive :: "32 word"
  m_flags :: "Flag set"
  m_mode :: Mode
  m_fingerprint :: String
  m_password :: String
  m_rigId :: String
  m_user :: String
  m_pollInterval :: "64 word"
  m_url :: 'u
  m_daemon :: 'u

text \<open>
  What Pool.cpp takes from other files: the class \<open>Url\<close> (its constructors from a C
  string, from host, port and TLS flag, and the default one; \<open>isValid\<close>, \<open>isTLS\<close>,
  \<open>url\<close>), the constants \<open>kKeepAliveTimeout\<close> and \<open>kDefaultPollInterval\<close> of Pool.h,
  the build features \<open>XMRIG_FEATURE_TLS\<close> and \<open>XMRIG_FEATURE_HTTP\<close>, and the macros
  \<open>CSI\<close> and \<open>CLEAR\<close> of the logger.
\<close>

record 'u Env =
  Url_parse :: "String \<Rightarrow> 'u"
  Url_build :: "String \<Rightarrow> 16 word \<Rightarrow> bool \<Rightarrow> 'u"
  Url_default :: "'u"
  Url_isValid :: "'u \<Rightarrow> bool"
  Url_isTLS :: "'u \<Rightarrow> bool"
  Url_url :: "'u \<Rightarrow> String"
  kKeepAliveTimeout :: "32 word"
  kDefaultPollInterval :: "64 word"
  FEATURE_TLS :: bool
  FEATURE_HTTP :: bool
  CSI :: string
  CLEAR :: string

subsection \<open>Field names\<close>

definition kDaemon :: string where "kDaemon = ''daemon''"
definition kDaemonPollInterval :: string where "kDaemonPollInterval = ''daemon-poll-interval''"
definition kEnabled :: string where "kEnabled = ''enabled''"
definition kFingerprint :: string where "kFingerprint = ''tls-fingerprint''"
definition kKeepalive :: string where "kKeepalive = ''keepalive''"
definition kPass :: string where "kPass = ''pass''"
definition kRigId :: string where "kRigId = ''rig-id''"
definition kSelfSelect :: string where "kSelfSelect = ''self-select''"
definition kTls :: string where "kTls = ''tls''"
definition kUrl :: string where "kUrl = ''url''"
definition kUser :: string where "kUser = ''user''"

subsection \<open>Helpers of other files\<close>

text \<open>
  Modelled from the spec: the getters of \<open>Json\<close> (base/io/json/Json.h is not under src/).
  The specification calls them the generic get-string, get-bool and get-uint helpers:
  an absent field, or one of another type, gives the default; the default of
  \<open>getString\<close> is the null pointer, and \<open>getValue\<close> gives the null value for an absent
  field. A string is taken as it is (no embedded terminator is considered).
\<close>

definition getValue :: "json_object \<Rightarrow> string \<Rightarrow> json" where
  "getValue obj key = (case map_of obj key of Some v \<Rightarrow> v | None \<Rightarrow> JNull)"

definition getString :: "json_object \<Rightarrow> string \<Rightarrow> String" where
  "getString obj key = (case map_of obj key of Some (JString s) \<Rightarrow> Some s | _ \<Rightarrow> None)"

definition getBool :: "json_object \<Rightarrow> string \<Rightarrow> bool \<Rightarrow> bool" where
  "getBool obj key defaultValue =
     (case map_of obj key of Some (JBool b) \<Rightarrow> b | _ \<Rightarrow> defaultValue)"

definition getUint64 :: "json_object \<Rightarrow> string \<Rightarrow> 64 word \<Rightarrow> 64 word" where
  "getUint64 obj key defaultValue =
     (case map_of obj key of
        Some (JNum n) \<Rightarrow> if 0 \<le> n \<and> n < 2 ^ 64 then word_of_int n else defaultValue
      | _ \<Rightarrow> defaultValue)"

text \<open>
  Modelled from the spec: \<open>String::toJSON\<close> (base/tools/String.h is not under src/): the
  null string becomes the null value, any other one a string value.
\<close>

definition String_toJSON :: "String \<Rightarrow> json" where
  "String_toJSON s = (case s of None \<Rightarrow> JNull | Some t \<Rightarrow> JString t)"

text \<open>
  Modelled from the spec: the default member initialisers of the class (Pool.h is not
  under src/): no credentials, keep-alive 0 (disabled), mode POOL, no flag, the default
  poll interval, and two default-constructed endpoints.
\<close>

definition Pool_init :: "'u Env \<Rightarrow> 'u Pool" where
  "Pool_init E =
     \<lparr> m_keepAlive = 0, m_flags = {}, m_mode = MODE_POOL, m_fingerprint = None,
       m_password = None, m_rigId = None, m_user = None,
       m_pollInterval = kDefaultPollInterval E,
       m_url = Url_default E, m_daemon = Url_default E \<rparr>"

text \<open>
  Modelled from the spec: the two overloads of \<open>setKeepAlive\<close> (inline in Pool.h, which is
  not under src/): an integer is stored unchanged, \<open>true\<close> stores the default-timeout
  sentinel and \<open>false\<close> stores 0.
\<close>

definition setKeepAlive_int :: "'u Pool \<Rightarrow> 32 word \<Rightarrow> 'u Pool" where
  "setKeepAlive_int p keepAlive = p\<lparr> m_keepAlive := keepAlive \<rparr>"

definition setKeepAlive_bool :: "'u Env \<Rightarrow> 'u Pool \<Rightarrow> bool \<Rightarrow> 'u Pool" where
  "setKeepAlive_bool E p enable =
     setKeepAlive_int p (if enable then kKeepAliveTimeout E else 0)"

text \<open>
  Modelled from the spec: the inline queries of Pool.h that Pool.cpp calls: the config
  is valid iff its endpoint is, \<open>isTLS\<close> reads the TLS flag of the flag set, and \<open>url\<close>
  is the string of the endpoint.
\<close>

definition isValid :: "'u Env \<Rightarrow> 'u Pool \<Rightarrow> bool" where
  "isValid E p = Url_isValid E (m_url p)"

definition isTLS :: "'u Pool \<Rightarrow> bool" where
  "isTLS p = bitset_test FLAG_TLS (m_flags p)"

definition url :: "'u Env \<Rightarrow> 'u Pool \<Rightarrow> String" where
  "url E p = Url_url E (m_url p)"

subsection \<open>Constructors\<close>

text \<open>\<open>Pool::Pool(const char *url)\<close>.\<close>

definition Pool_url :: "'u Env \<Rightarrow> String \<Rightarrow> 'u Pool" where
  "Pool_url E u =
     (Pool_init E)\<lparr> m_flags := {FLAG_ENABLED},
                    m_pollInterval := kDefaultPollInterval E,
                    m_url := Url_parse E u \<rparr>"

text \<open>
  \<open>Pool::Pool(const rapidjson::Value &object)\<close>. The member initialisers are those of
  the constructor above; the body returns at once when the endpoint is not valid.
\<close>

definition Pool_json :: "'u Env \<Rightarrow> json_object \<Rightarrow> 'u Pool" where
  "Pool_json E object =
     (let p0 = Pool_url E (getString object kUrl) in
      if \<not> Url_isValid E (m_url p0) then p0
      else
        let p1 = p0\<lparr> m_user := getString object kUser,
                     m_password := getString object kPass,
                     m_rigId := getString object kRigId,
                     m_fingerprint := getString object kFingerprint,
                     m_pollInterval :=
                       getUint64 object kDaemonPollInterval (kDefaultPollInterval E),
                     m_daemon := Url_parse E (getString object kSelfSelect) \<rparr>;
            p2 = p1\<lparr> m_flags :=
                       bitset_set FLAG_ENABLED (getBool object kEnabled True) (m_flags p1) \<rparr>;
            p3 = p2\<lparr> m_flags :=
                       bitset_set FLAG_TLS
                         (getBool object kTls False \<or> Url_isTLS E (m_url p2)) (m_flags p2) \<rparr>;
            p4 = (if Url_isValid E (m_daemon p3) then p3\<lparr> m_mode := MODE_SELF_SELECT \<rparr>
                  else if getBool object kDaemon False then p3\<lparr> m_mode := MODE_DAEMON \<rparr>
                  else p3);
            keepalive = getValue object kKeepalive
        in if IsInt keepalive then setKeepAlive_int p4 (GetInt keepalive)
           else if IsBool keepalive then setKeepAlive_bool E p4 (GetBool keepalive)
           else p4)"

text \<open>\<open>Pool::Pool(host, port, user, password, keepAlive, tls)\<close>.\<close>

definition Pool_args ::
  "'u Env \<Rightarrow> String \<Rightarrow> 16 word \<Rightarrow> String \<Rightarrow> String \<Rightarrow> 32 word \<Rightarrow> bool \<Rightarrow> 'u Pool" where
  "Pool_args E host port user password keepAlive tls =
     (let p0 = (Pool_init E)\<lparr> m_keepAlive := keepAlive,
                              m_flags := {FLAG_ENABLED},
                              m_password := password,
                              m_user := user,
                              m_pollInterval := kDefaultPollInterval E,
                              m_url := Url_build E host port tls \<rparr>
      in p0\<lparr> m_flags := bitset_set FLAG_TLS tls (m_flags p0) \<rparr>)"

text \<open>
  The three construction paths as one function, and the value of the boolean
  \<open>daemon\<close> field that a path was given (only a decoded object has one).
\<close>

datatype Ctor =
    FromUrl String
  | FromJson json_object
  | FromArgs String "16 word" String String "32 word" bool

fun construct :: "'u Env \<Rightarrow> Ctor \<Rightarrow> 'u Pool" where
  "construct E (FromUrl u) = Pool_url E u"
| "construct E (FromJson object) = Pool_json E object"
| "construct E (FromArgs host port user password keepAlive tls) =
     Pool_args E host port user password keepAlive tls"

fun daemon_flag :: "Ctor \<Rightarrow> bool" where
  "daemon_flag (FromJson object) = getBool object kDaemon False"
| "daemon_flag _ = False"

subsection \<open>Queries\<close>

text \<open>
  \<open>Pool::isEnabled\<close>. Each \<open>#ifndef\<close> block is a test that is present only when the
  feature is absent.
\<close>

definition isEnabled :: "'u Env \<Rightarrow> 'u Pool \<Rightarrow> bool" where
  "isEnabled E p =
     (if \<not> FEATURE_TLS E \<and> isTLS p then False
      else if \<not> FEATURE_HTTP E \<and> m_mode p = MODE_DAEMON then False
      else if \<not> FEATURE_HTTP E \<and> m_mode p = MODE_SELF_SELECT then False
      else bitset_test FLAG_ENABLED (m_flags p) \<and> isValid E p)"

text \<open>\<open>Pool::isEqual\<close>, in the order of the source.\<close>

definition isEqual :: "'u Pool \<Rightarrow> 'u Pool \<Rightarrow> bool" where
  "isEqual p other =
     (m_flags p = m_flags other
      \<and> m_keepAlive p = m_keepAlive other
      \<and> m_mode p = m_mode other
      \<and> m_fingerprint p = m_fingerprint other
      \<and> m_password p = m_password other
      \<and> m_rigId p = m_rigId other
      \<and> m_url p = m_url other
      \<and> m_user p = m_user other
      \<and> m_pollInterval p = m_pollInterval other
      \<and> m_daemon p = m_daemon other)"

subsection \<open>Encoding\<close>

text \<open>\<open>Pool::toJSON\<close>: the members of the object, in the order of the \<open>AddMember\<close> calls.\<close>

definition toJSON :: "'u Env \<Rightarrow> 'u Pool \<Rightarrow> json_object" where
  "toJSON E p =
     [(kUrl, String_toJSON (url E p)), (kUser, String_toJSON (m_user p))]
     @ (if m_mode p \<noteq> MODE_DAEMON then
          [(kPass, String_toJSON (m_password p)),
           (kRigId, String_toJSON (m_rigId p)),
           (kKeepalive,
              if m_keepAlive p = 0 \<or> m_keepAlive p = kKeepAliveTimeout E
              then JBool (0 < sint (m_keepAlive p))
              else JNum (sint (m_keepAlive p)))]
        else [])
     @ [(kEnabled, JBool (bitset_test FLAG_ENABLED (m_flags p))),
        (kTls, JBool (isTLS p)),
        (kFingerprint, String_toJSON (m_fingerprint p)),
        (kDaemon, JBool (m_mode p = MODE_DAEMON))]
     @ (if m_mode p = MODE_DAEMON then
          [(kDaemonPollInterval, JNum (uint (m_pollInterval p)))]
        else
          [(kSelfSelect, String_toJSON (Url_url E (m_daemon p)))])"

subsection \<open>Printable name\<close>

text \<open>\<open>std::to_string\<close> on an \<open>int\<close>: the decimal digits, with a sign when negative.\<close>

fun to_string_nat :: "nat \<Rightarrow> string" where
  "to_string_nat n =
     (if n < 10 then [''0123456789'' ! n]
      else to_string_nat (n div 10) @ [''0123456789'' ! (n mod 10)])"

declare to_string_nat.simps [simp del]

definition to_string :: "int \<Rightarrow> string" where
  "to_string i = (if i < 0 then CHR ''-'' # to_string_nat (nat (- i)) else to_string_nat (nat i))"

text \<open>
  \<open>Pool::printableName\<close>. \<open>String::data()\<close> of a null string is the null pointer, and
  appending it to a \<open>std::string\<close> is undefined: the result is \<open>None\<close> there.
\<close>

definition printableName :: "'u Env \<Rightarrow> 'u Pool \<Rightarrow> string option" where
  "printableName E p =
     (case url E p of
        None \<Rightarrow> None
      | Some u \<Rightarrow>
          let out = CSI E @ ''1;''
                    @ to_string (if isEnabled E p then (if isTLS p then 32 else 36) else 31)
                    @ ''m'' @ u @ CLEAR E
          in if m_mode p = MODE_SELF_SELECT then
               (case Url_url E (m_daemon p) of
                  None \<Rightarrow> None
                | Some d \<Rightarrow>
                    Some (out @ '' self-select '' @ CSI E @ ''1;''
                          @ to_string (if Url_isTLS E (m_daemon p) then 32 else 36)
                          @ ''m'' @ d @ CLEAR E))
             else Some out)"

subsection \<open>The colours of the specification\<close>

text \<open>
  The specification names three colours. With the usual SGR parameters, bright green
  is \<open>1;32\<close>, bright cyan \<open>1;36\<close> and bright red \<open>1;31\<close>; a coloured segment is the text
  between the escape sequence of its colour and the reset sequence.
\<close>

datatype Colour = BrightGreen | BrightCyan | BrightRed

fun sgr :: "Colour \<Rightarrow> string" where
  "sgr BrightGreen = ''1;32''"
| "sgr BrightCyan = ''1;36''"
| "sgr BrightRed = ''1;31''"

definition coloured :: "'u Env \<Rightarrow> Colour \<Rightarrow> string \<Rightarrow> string" where
  "coloured E c s = CSI E @ sgr c @ ''m'' @ s @ CLEAR E"

text \<open>The three-way choice of the specification.\<close>

definition colour_choice :: "bool \<Rightarrow> bool \<Rightarrow> Colour" where
  "colour_choice enabled tls =
     (if enabled then (if tls then BrightGreen else BrightCyan) else BrightRed)"

text \<open>
  The printable name as the specification words it, for comparison with the one of the
  source: the daemon segment takes the same three-way choice, on the TLS status of the
  daemon endpoint.
\<close>

definition printableName_spec :: "'u Env \<Rightarrow> 'u Pool \<Rightarrow> string option" where
  "printableName_spec E p =
     (case url E p of
        None \<Rightarrow> None
      | Some u \<Rightarrow>
          let out = coloured E (colour_choice (isEnabled E p) (isTLS p)) u
          in if m_mode p = MODE_SELF_SELECT then
               (case Url_url E (m_daemon p) of
                  None \<Rightarrow> None
                | Some d \<Rightarrow>
                    Some (out @ '' self-select ''
                          @ coloured E
                              (colour_choice (isEnabled E p) (Url_isTLS E (m_daemon p))) d))
             else Some out)"

subsection \<open>An instance of the parameters\<close>

text \<open>
  Modelled from the spec: an endpoint with host, port and TLS status, and the string it
  was made from (the class \<open>Url\<close> is not under src/). It serves to evaluate the model on
  concrete inputs. The specification does not name the schemes, so this parser accepts
  the scheme-less form \<open>host:port\<close> only, with a decimal port from 1 to 65535; any other
  input gives the invalid endpoint, which has no host. An endpoint is TLS only when
  it was built with the explicit flag.
\<close>

record Url =
  u_host :: String
  u_port :: "16 word"
  u_tls :: bool
  u_url :: String

definition Url_invalid :: Url where
  "Url_invalid = \<lparr> u_host = None, u_port = 0, u_tls = False, u_url = None \<rparr>"

definition digit_val :: "char \<Rightarrow> nat option" where
  "digit_val c =
     map_of [(CHR ''0'', 0), (CHR ''1'', 1), (CHR ''2'', 2), (CHR ''3'', 3), (CHR ''4'', 4),
             (CHR ''5'', 5), (CHR ''6'', 6), (CHR ''7'', 7), (CHR ''8'', 8), (CHR ''9'', 9)] c"

fun parse_digits :: "nat \<Rightarrow> string \<Rightarrow> nat option" where
  "parse_digits acc [] = Some acc"
| "parse_digits acc (c # cs) =
     (case digit_val c of None \<Rightarrow> None | Some d \<Rightarrow> parse_digits (10 * acc + d) cs)"

definition parse_endpoint :: "String \<Rightarrow> Url" where
  "parse_endpoint u =
     (case u of
        None \<Rightarrow> Url_invalid
      | Some s \<Rightarrow>
          let h = takeWhile (\<lambda>c. c \<noteq> CHR '':'') s;
              r = dropWhile (\<lambda>c. c \<noteq> CHR '':'') s
          in if h = [] \<or> length r < 2 then Url_invalid
             else (case parse_digits 0 (tl r) of
                     None \<Rightarrow> Url_invalid
                   | Some n \<Rightarrow>
                       if n = 0 \<or> 65535 < n then Url_invalid
                       else \<lparr> u_host = Some h, u_port = of_nat n, u_tls = False,
                              u_url = Some s \<rparr>))"

definition build_endpoint :: "String \<Rightarrow> 16 word \<Rightarrow> bool \<Rightarrow> Url" where
  "build_endpoint h pt t =
     (case h of
        None \<Rightarrow> Url_invalid
      | Some n \<Rightarrow> \<lparr> u_host = Some n, u_port = pt, u_tls = t,
                     u_url = Some (n @ '':'' @ to_string_nat (unat pt)) \<rparr>)"

text \<open>
  The instance: both features compiled in, a keep-alive sentinel of 60 seconds, a poll
  interval of 1000 milliseconds, and the ANSI sequences \<open>ESC [\<close> and \<open>ESC [ 0 m\<close>.
\<close>

definition example_env :: "Url Env" where
  "example_env =
     \<lparr> Url_parse = parse_endpoint, Url_build = build_endpoint, Url_default = Url_invalid,
       Url_isValid = (\<lambda>u. u_host u \<noteq> None), Url_isTLS = u_tls, Url_url = u_url,
       kKeepAliveTimeout = 60, kDefaultPollInterval = 1000,
       FEATURE_TLS = True, FEATURE_HTTP = True,
       CSI = [CHR 0x1B, CHR ''[''], CLEAR = [CHR 0x1B, CHR ''['', CHR ''0'', CHR ''m''] \<rparr>"

section \<open>Properties\<close>

subsection \<open>Evaluation of the instance\<close>

lemmas key_defs = kDaemon_def kDaemonPollInterval_def kEnabled_def kFingerprint_def
  kKeepalive_def kPass_def kRigId_def kSelfSelect_def kTls_def kUrl_def kUser_def

lemmas getter_defs = getValue_def getString_def getBool_def getUint64_def

lemmas example_defs = example_env_def Url_invalid_def

lemmas decode_defs = Pool_json_def Pool_url_def Pool_init_def bitset_set_def bitset_test_def
  isValid_def isTLS_def IsInt_def IsBool_def GetInt_def GetBool_def
  setKeepAlive_int_def setKeepAlive_bool_def

lemma parse_endpoint_pool [simp]:
  "parse_endpoint (Some ''pool.example.com:3333'') =
     \<lparr> u_host = Some ''pool.example.com'', u_port = 3333, u_tls = False,
       u_url = Some ''pool.example.com:3333'' \<rparr>"
  by (simp add: parse_endpoint_def digit_val_def)

lemma parse_endpoint_daemon [simp]:
  "parse_endpoint (Some ''daemon.example.com:18081'') =
     \<lparr> u_host = Some ''daemon.example.com'', u_port = 18081, u_tls = False,
       u_url = Some ''daemon.example.com:18081'' \<rparr>"
  by (simp add: parse_endpoint_def digit_val_def)

lemma parse_endpoint_null [simp]: "parse_endpoint None = Url_invalid"
  by (simp add: parse_endpoint_def)

subsection \<open>isEnabled\<close>

text \<open>
  C3. \<open>isEnabled\<close> is true iff the enabled flag is set, the config is valid, and the
  build permits it: a TLS-flagged config needs the TLS feature, a DAEMON or SELF_SELECT
  config needs the HTTP feature (the source gates both modes by the one macro
  \<open>XMRIG_FEATURE_HTTP\<close>). In particular it is false whenever the enabled flag is not set.
\<close>

theorem isEnabled_iff:
  "(isEnabled E p \<longleftrightarrow>
      bitset_test FLAG_ENABLED (m_flags p) \<and> isValid E p
      \<and> (isTLS p \<longrightarrow> FEATURE_TLS E)
      \<and> (m_mode p = MODE_DAEMON \<or> m_mode p = MODE_SELF_SELECT \<longrightarrow> FEATURE_HTTP E))
   \<and> (\<not> bitset_test FLAG_ENABLED (m_flags p) \<longrightarrow> \<not> isEnabled E p)"
  by (auto simp: isEnabled_def)

text \<open>
  A TLS self-select config is enabled when both features are present and disabled once
  TLS is missing; a valid config with \<open>enabled\<close> false is disabled.
\<close>

theorem isEnabled_iff_witness:
  "isEnabled example_env
     (Pool_json example_env
        [(kUrl, JString ''pool.example.com:3333''), (kTls, JBool True),
         (kSelfSelect, JString ''daemon.example.com:18081'')])
   \<and> \<not> isEnabled (example_env\<lparr> FEATURE_TLS := False \<rparr>)
     (Pool_json example_env
        [(kUrl, JString ''pool.example.com:3333''), (kTls, JBool True),
         (kSelfSelect, JString ''daemon.example.com:18081'')])
   \<and> \<not> isEnabled example_env
     (Pool_json example_env
        [(kUrl, JString ''pool.example.com:3333''), (kEnabled, JBool False)])"
  using isEnabled_iff [of example_env
      "Pool_json example_env
        [(kUrl, JString ''pool.example.com:3333''), (kTls, JBool True),
         (kSelfSelect, JString ''daemon.example.com:18081'')]"]
    isEnabled_iff [of "example_env\<lparr> FEATURE_TLS := False \<rparr>"
      "Pool_json example_env
        [(kUrl, JString ''pool.example.com:3333''), (kTls, JBool True),
         (kSelfSelect, JString ''daemon.example.com:18081'')]"]
    isEnabled_iff [of example_env
      "Pool_json example_env
        [(kUrl, JString ''pool.example.com:3333''), (kEnabled, JBool False)]"]
  by (simp add: decode_defs key_defs getter_defs example_defs)

subsection \<open>isEqual\<close>

text \<open>
  C5. \<open>isEqual\<close> holds iff the two configs agree on every stored field, that is, iff
  they are the same record of the ten members; two configs that differ only in
  \<open>m_rigId\<close> are not equal.
\<close>

theorem isEqual_iff_all_fields:
  fixes a b :: "'u Pool"
  shows "(isEqual a b \<longleftrightarrow> a = b)
     \<and> (m_rigId a \<noteq> r \<longrightarrow> \<not> isEqual a (a\<lparr> m_rigId := r \<rparr>))"
  by (auto simp: isEqual_def)

theorem isEqual_iff_all_fields_witness:
  "m_rigId (Pool_url example_env (Some ''pool.example.com:3333'')) \<noteq> Some ''rig-1''
   \<and> \<not> isEqual (Pool_url example_env (Some ''pool.example.com:3333''))
     ((Pool_url example_env (Some ''pool.example.com:3333''))\<lparr> m_rigId := Some ''rig-1'' \<rparr>)"
  using isEqual_iff_all_fields
    [where a = "Pool_url example_env (Some ''pool.example.com:3333'')"
       and r = "Some ''rig-1''"]
  by (simp add: Pool_url_def Pool_init_def)

subsection \<open>setKeepAlive\<close>

text \<open>
  C9. \<open>setKeepAlive(true)\<close> stores the default-timeout sentinel, \<open>setKeepAlive(false)\<close>
  stores 0, and \<open>setKeepAlive(n)\<close> stores the integer \<open>n\<close> unchanged, for example 42, and
  a negative one as well.
\<close>

theorem setKeepAlive_stores:
  "m_keepAlive (setKeepAlive_bool E p True) = kKeepAliveTimeout E
   \<and> m_keepAlive (setKeepAlive_bool E p False) = 0
   \<and> m_keepAlive (setKeepAlive_int p n) = n
   \<and> m_keepAlive (setKeepAlive_int p 42) = 42
   \<and> sint (m_keepAlive (setKeepAlive_int p (- 5))) = - 5"
  by (simp add: setKeepAlive_bool_def setKeepAlive_int_def)

subsection \<open>Decoding an object without a valid url\<close>

text \<open>
  C4. When the \<open>url\<close> field of the object does not give a valid endpoint (a missing
  field, or one that is not a string, is read as the null string), the decoded config
  is not valid and nothing else has been read: user, password, rig id, fingerprint,
  daemon endpoint, keep-alive, mode, flag set and poll interval are those of the
  constructor from a bare string.
\<close>

theorem decode_invalid_url:
  assumes "\<not> Url_isValid E (Url_parse E (getString object kUrl))"
  shows "\<not> isValid E (Pool_json E object)
     \<and> m_user (Pool_json E object) = None
     \<and> m_password (Pool_json E object) = None
     \<and> m_rigId (Pool_json E object) = None
     \<and> m_fingerprint (Pool_json E object) = None
     \<and> m_daemon (Pool_json E object) = Url_default E
     \<and> m_keepAlive (Pool_json E object) = 0
     \<and> m_mode (Pool_json E object) = MODE_POOL
     \<and> m_flags (Pool_json E object) = {FLAG_ENABLED}
     \<and> m_pollInterval (Pool_json E object) = kDefaultPollInterval E
     \<and> Pool_json E object = Pool_url E (getString object kUrl)"
  using assms by (simp add: Pool_json_def Pool_url_def Pool_init_def isValid_def)

text \<open>An object with credentials, a daemon flag and a keep-alive, but no url.\<close>

theorem decode_invalid_url_witness:
  "\<not> Url_isValid example_env
       (Url_parse example_env
          (getString [(kUser, JString ''wallet''), (kPass, JString ''secret''),
                      (kDaemon, JBool True), (kKeepalive, JNum 30)] kUrl))
   \<and> m_user (Pool_json example_env
                [(kUser, JString ''wallet''), (kPass, JString ''secret''),
                 (kDaemon, JBool True), (kKeepalive, JNum 30)]) = None
   \<and> m_keepAlive (Pool_json example_env
                [(kUser, JString ''wallet''), (kPass, JString ''secret''),
                 (kDaemon, JBool True), (kKeepalive, JNum 30)]) = 0
   \<and> m_mode (Pool_json example_env
                [(kUser, JString ''wallet''), (kPass, JString ''secret''),
                 (kDaemon, JBool True), (kKeepalive, JNum 30)]) = MODE_POOL"
proof -
  have h: "\<not> Url_isValid example_env
       (Url_parse example_env
          (getString [(kUser, JString ''wallet''), (kPass, JString ''secret''),
                      (kDaemon, JBool True), (kKeepalive, JNum 30)] kUrl))"
    by (simp add: key_defs getter_defs example_defs)
  show ?thesis using h decode_invalid_url [OF h] by blast
qed

subsection \<open>Fields of a decoded config\<close>

text \<open>
  What the JSON constructor stores when the endpoint is valid, member by member, and
  what it returns when it is not.
\<close>

lemma Pool_json_valid:
  assumes "Url_isValid E (Url_parse E (getString object kUrl))"
  shows "m_url (Pool_json E object) = Url_parse E (getString object kUrl)"
    and "m_user (Pool_json E object) = getString object kUser"
    and "m_password (Pool_json E object) = getString object kPass"
    and "m_rigId (Pool_json E object) = getString object kRigId"
    and "m_fingerprint (Pool_json E object) = getString object kFingerprint"
    and "m_pollInterval (Pool_json E object) =
           getUint64 object kDaemonPollInterval (kDefaultPollInterval E)"
    and "m_daemon (Pool_json E object) = Url_parse E (getString object kSelfSelect)"
    and "m_flags (Pool_json E object) =
           bitset_set FLAG_TLS
             (getBool object kTls False \<or> Url_isTLS E (Url_parse E (getString object kUrl)))
             (bitset_set FLAG_ENABLED (getBool object kEnabled True) {FLAG_ENABLED})"
    and "m_mode (Pool_json E object) =
           (if Url_isValid E (Url_parse E (getString object kSelfSelect)) then MODE_SELF_SELECT
            else if getBool object kDaemon False then MODE_DAEMON else MODE_POOL)"
    and "m_keepAlive (Pool_json E object) =
           (if IsInt (getValue object kKeepalive) then GetInt (getValue object kKeepalive)
            else if IsBool (getValue object kKeepalive)
              then (if GetBool (getValue object kKeepalive) then kKeepAliveTimeout E else 0)
            else 0)"
  using assms
  by (simp_all add: Pool_json_def Pool_url_def Pool_init_def Let_def
      setKeepAlive_int_def setKeepAlive_bool_def)

lemma Pool_json_invalid:
  "\<not> Url_isValid E (Url_parse E (getString object kUrl)) \<Longrightarrow>
   Pool_json E object = Pool_url E (getString object kUrl)"
  by (simp add: Pool_json_def Pool_url_def Pool_init_def)

subsection \<open>Mode derivation\<close>

text \<open>
  C2, as it holds on the code. Over the three construction paths, with a
  default-constructed endpoint that is not valid: the mode is SELF_SELECT iff the stored
  daemon endpoint is valid; it is DAEMON iff the stored daemon endpoint is not valid,
  the boolean \<open>daemon\<close> field was true and the config itself is valid; it is POOL
  otherwise. Decoding an object with a valid url, a valid self-select endpoint and
  \<open>daemon\<close> true gives SELF_SELECT. The condition that the config is valid is what the
  code adds: the constructor returns before it reads \<open>self-select\<close> and \<open>daemon\<close>
  when the url is missing or invalid.
\<close>

theorem mode_invariant:
  assumes "\<not> Url_isValid E (Url_default E)"
  shows "(m_mode (construct E c) = MODE_SELF_SELECT
            \<longleftrightarrow> Url_isValid E (m_daemon (construct E c)))
     \<and> (m_mode (construct E c) = MODE_DAEMON
            \<longleftrightarrow> \<not> Url_isValid E (m_daemon (construct E c)) \<and> daemon_flag c
                \<and> isValid E (construct E c))
     \<and> (m_mode (construct E c) = MODE_POOL
            \<longleftrightarrow> \<not> Url_isValid E (m_daemon (construct E c))
                \<and> \<not> (daemon_flag c \<and> isValid E (construct E c)))
     \<and> (Url_isValid E (Url_parse E (getString object kUrl))
          \<and> Url_isValid E (Url_parse E (getString object kSelfSelect))
          \<and> getBool object kDaemon False
        \<longrightarrow> m_mode (Pool_json E object) = MODE_SELF_SELECT)"
proof -
  have last: "Url_isValid E (Url_parse E (getString object kUrl))
          \<and> Url_isValid E (Url_parse E (getString object kSelfSelect))
          \<and> getBool object kDaemon False
        \<longrightarrow> m_mode (Pool_json E object) = MODE_SELF_SELECT"
    by (simp add: Pool_json_valid(9))
  have main: "(m_mode (construct E c) = MODE_SELF_SELECT
            \<longleftrightarrow> Url_isValid E (m_daemon (construct E c)))
     \<and> (m_mode (construct E c) = MODE_DAEMON
            \<longleftrightarrow> \<not> Url_isValid E (m_daemon (construct E c)) \<and> daemon_flag c
                \<and> isValid E (construct E c))"
  proof (cases c)
    case (FromUrl u)
    then show ?thesis using assms by (simp add: Pool_url_def Pool_init_def)
  next
    case (FromJson obj)
    show ?thesis
    proof (cases "Url_isValid E (Url_parse E (getString obj kUrl))")
      case True
      then show ?thesis using FromJson
        by (simp add: Pool_json_valid(1,7,9) isValid_def)
    next
      case False
      then show ?thesis using FromJson assms
        by (simp add: Pool_json_invalid Pool_url_def Pool_init_def isValid_def)
    qed
  next
    case (FromArgs h pt us pw k t)
    then show ?thesis using assms by (simp add: Pool_args_def Pool_init_def Let_def)
  qed
  have pool: "m_mode (construct E c) = MODE_POOL
            \<longleftrightarrow> \<not> Url_isValid E (m_daemon (construct E c))
                \<and> \<not> (daemon_flag c \<and> isValid E (construct E c))"
    using main by (cases "m_mode (construct E c)") auto
  show ?thesis using main pool last by blast
qed

text \<open>
  A valid url with a valid self-select endpoint and \<open>daemon\<close> true gives SELF_SELECT;
  without the self-select endpoint it gives DAEMON.
\<close>

theorem mode_invariant_witness:
  "\<not> Url_isValid example_env (Url_default example_env)
   \<and> Url_isValid example_env
       (m_daemon (construct example_env
          (FromJson [(kUrl, JString ''pool.example.com:3333''),
                     (kSelfSelect, JString ''daemon.example.com:18081''),
                     (kDaemon, JBool True)])))
   \<and> m_mode (construct example_env
          (FromJson [(kUrl, JString ''pool.example.com:3333''),
                     (kSelfSelect, JString ''daemon.example.com:18081''),
                     (kDaemon, JBool True)])) = MODE_SELF_SELECT
   \<and> m_mode (construct example_env
          (FromJson [(kUrl, JString ''pool.example.com:3333''),
                     (kDaemon, JBool True)])) = MODE_DAEMON"
proof -
  have h: "\<not> Url_isValid example_env (Url_default example_env)"
    by (simp add: example_defs)
  have v: "Url_isValid example_env
       (m_daemon (construct example_env
          (FromJson [(kUrl, JString ''pool.example.com:3333''),
                     (kSelfSelect, JString ''daemon.example.com:18081''),
                     (kDaemon, JBool True)])))"
    by (simp add: decode_defs key_defs getter_defs example_defs)
  have d: "\<not> Url_isValid example_env
       (m_daemon (construct example_env
          (FromJson [(kUrl, JString ''pool.example.com:3333''), (kDaemon, JBool True)])))
     \<and> daemon_flag (FromJson [(kUrl, JString ''pool.example.com:3333''), (kDaemon, JBool True)])
     \<and> isValid example_env (construct example_env
          (FromJson [(kUrl, JString ''pool.example.com:3333''), (kDaemon, JBool True)]))"
    by (simp add: decode_defs key_defs getter_defs example_defs)
  show ?thesis
    using h v d
      mode_invariant [OF h, of
        "FromJson [(kUrl, JString ''pool.example.com:3333''),
                   (kSelfSelect, JString ''daemon.example.com:18081''),
                   (kDaemon, JBool True)]"]
      mode_invariant [OF h, of
        "FromJson [(kUrl, JString ''pool.example.com:3333''), (kDaemon, JBool True)]"]
    by blast
qed

text \<open>
  Without the validity condition the statement fails: an object with \<open>daemon\<close> true and
  a valid self-select endpoint but no url decodes to POOL, with the default daemon
  endpoint.
\<close>

theorem mode_invariant_counterexample:
  "\<not> (m_mode (construct example_env
              (FromJson [(kSelfSelect, JString ''daemon.example.com:18081''),
                         (kDaemon, JBool True)])) = MODE_DAEMON
       \<longleftrightarrow> \<not> Url_isValid example_env
              (m_daemon (construct example_env
                 (FromJson [(kSelfSelect, JString ''daemon.example.com:18081''),
                            (kDaemon, JBool True)])))
           \<and> daemon_flag (FromJson [(kSelfSelect, JString ''daemon.example.com:18081''),
                                    (kDaemon, JBool True)]))
   \<and> Url_isValid example_env
       (Url_parse example_env
          (getString [(kSelfSelect, JString ''daemon.example.com:18081''),
                      (kDaemon, JBool True)] kSelfSelect))
   \<and> m_mode (construct example_env
              (FromJson [(kSelfSelect, JString ''daemon.example.com:18081''),
                         (kDaemon, JBool True)])) = MODE_POOL"
  by (simp add: decode_defs key_defs getter_defs example_defs)

subsection \<open>Encoding\<close>

lemma toJSON_daemon:
  "m_mode p = MODE_DAEMON \<Longrightarrow>
   toJSON E p =
     [(kUrl, String_toJSON (url E p)), (kUser, String_toJSON (m_user p)),
      (kEnabled, JBool (bitset_test FLAG_ENABLED (m_flags p))),
      (kTls, JBool (isTLS p)),
      (kFingerprint, String_toJSON (m_fingerprint p)),
      (kDaemon, JBool True),
      (kDaemonPollInterval, JNum (uint (m_pollInterval p)))]"
  by (simp add: toJSON_def)

lemma toJSON_other:
  "m_mode p \<noteq> MODE_DAEMON \<Longrightarrow>
   toJSON E p =
     [(kUrl, String_toJSON (url E p)), (kUser, String_toJSON (m_user p)),
      (kPass, String_toJSON (m_password p)),
      (kRigId, String_toJSON (m_rigId p)),
      (kKeepalive,
         if m_keepAlive p = 0 \<or> m_keepAlive p = kKeepAliveTimeout E
         then JBool (0 < sint (m_keepAlive p))
         else JNum (sint (m_keepAlive p))),
      (kEnabled, JBool (bitset_test FLAG_ENABLED (m_flags p))),
      (kTls, JBool (isTLS p)),
      (kFingerprint, String_toJSON (m_fingerprint p)),
      (kDaemon, JBool False),
      (kSelfSelect, String_toJSON (Url_url E (m_daemon p)))]"
  by (simp add: toJSON_def)

text \<open>
  C6. The encoded object always has \<open>url\<close>, \<open>user\<close>, \<open>enabled\<close>, \<open>tls\<close>,
  \<open>tls-fingerprint\<close> and a boolean \<open>daemon\<close> equal to \<open>mode = DAEMON\<close>; it has \<open>pass\<close>,
  \<open>rig-id\<close> and \<open>keepalive\<close> iff the mode is not DAEMON; it has \<open>daemon-poll-interval\<close>
  iff the mode is DAEMON, and otherwise \<open>self-select\<close> with the string of the daemon
  endpoint, whatever that endpoint is (the null value for an endpoint without a string).
  No field is emitted twice.
\<close>

theorem toJSON_fields:
  "map_of (toJSON E p) kUrl = Some (String_toJSON (url E p))
   \<and> map_of (toJSON E p) kUser = Some (String_toJSON (m_user p))
   \<and> map_of (toJSON E p) kEnabled = Some (JBool (bitset_test FLAG_ENABLED (m_flags p)))
   \<and> map_of (toJSON E p) kTls = Some (JBool (isTLS p))
   \<and> map_of (toJSON E p) kFingerprint = Some (String_toJSON (m_fingerprint p))
   \<and> map_of (toJSON E p) kDaemon = Some (JBool (m_mode p = MODE_DAEMON))
   \<and> map_of (toJSON E p) kPass =
       (if m_mode p \<noteq> MODE_DAEMON then Some (String_toJSON (m_password p)) else None)
   \<and> map_of (toJSON E p) kRigId =
       (if m_mode p \<noteq> MODE_DAEMON then Some (String_toJSON (m_rigId p)) else None)
   \<and> (map_of (toJSON E p) kKeepalive \<noteq> None \<longleftrightarrow> m_mode p \<noteq> MODE_DAEMON)
   \<and> map_of (toJSON E p) kDaemonPollInterval =
       (if m_mode p = MODE_DAEMON then Some (JNum (uint (m_pollInterval p))) else None)
   \<and> map_of (toJSON E p) kSelfSelect =
       (if m_mode p = MODE_DAEMON then None
        else Some (String_toJSON (Url_url E (m_daemon p))))
   \<and> distinct (map fst (toJSON E p))"
proof (cases "m_mode p = MODE_DAEMON")
  case True
  show ?thesis unfolding toJSON_daemon [OF True] using True by (simp add: key_defs)
next
  case False
  show ?thesis unfolding toJSON_other [OF False] using False by (simp add: key_defs)
qed

text \<open>A DAEMON config and a POOL config without a daemon endpoint.\<close>

theorem toJSON_fields_witness:
  "map_of (toJSON example_env
      (Pool_json example_env [(kUrl, JString ''pool.example.com:3333''), (kDaemon, JBool True)]))
      kDaemonPollInterval = Some (JNum 1000)
   \<and> map_of (toJSON example_env
      (Pool_json example_env [(kUrl, JString ''pool.example.com:3333''), (kDaemon, JBool True)]))
      kPass = None
   \<and> map_of (toJSON example_env
      (Pool_json example_env [(kUrl, JString ''pool.example.com:3333'')]))
      kSelfSelect = Some JNull
   \<and> map_of (toJSON example_env
      (Pool_json example_env [(kUrl, JString ''pool.example.com:3333'')]))
      kPass = Some JNull"
  using toJSON_fields [of example_env
      "Pool_json example_env [(kUrl, JString ''pool.example.com:3333''), (kDaemon, JBool True)]"]
    toJSON_fields [of example_env
      "Pool_json example_env [(kUrl, JString ''pool.example.com:3333'')]"]
  by (simp add: decode_defs key_defs getter_defs example_defs String_toJSON_def)

text \<open>
  C7. For a config that is not in DAEMON mode the \<open>keepalive\<close> field is a boolean
  exactly when the stored value is 0 or the default-timeout sentinel, the boolean being
  \<open>keepAlive > 0\<close>; otherwise it is the stored integer.
\<close>

theorem toJSON_keepalive:
  assumes "m_mode p \<noteq> MODE_DAEMON"
  shows "\<exists>v. map_of (toJSON E p) kKeepalive = Some v
     \<and> (IsBool v \<longleftrightarrow> m_keepAlive p = 0 \<or> m_keepAlive p = kKeepAliveTimeout E)
     \<and> (IsBool v \<longrightarrow> v = JBool (0 < sint (m_keepAlive p)))
     \<and> (\<not> IsBool v \<longrightarrow> v = JNum (sint (m_keepAlive p)))"
  unfolding toJSON_other [OF assms] by (simp add: key_defs IsBool_def)

text \<open>Keep-alive 42 is emitted as 42, the sentinel 60 as true, and 0 as false.\<close>

theorem toJSON_keepalive_witness:
  "m_mode (Pool_args example_env (Some ''pool.example.com'') 3333 (Some ''wallet'') (Some ''x'')
             42 False) \<noteq> MODE_DAEMON
   \<and> map_of (toJSON example_env
        (Pool_args example_env (Some ''pool.example.com'') 3333 (Some ''wallet'') (Some ''x'')
           42 False)) kKeepalive = Some (JNum 42)
   \<and> map_of (toJSON example_env
        (Pool_args example_env (Some ''pool.example.com'') 3333 (Some ''wallet'') (Some ''x'')
           60 False)) kKeepalive = Some (JBool True)
   \<and> map_of (toJSON example_env
        (Pool_args example_env (Some ''pool.example.com'') 3333 (Some ''wallet'') (Some ''x'')
           0 False)) kKeepalive = Some (JBool False)"
proof -
  have m: "m_mode (Pool_args example_env (Some ''pool.example.com'') 3333 (Some ''wallet'')
             (Some ''x'') k False) \<noteq> MODE_DAEMON" for k
    by (simp add: Pool_args_def Pool_init_def Let_def)
  have k: "m_keepAlive (Pool_args example_env (Some ''pool.example.com'') 3333 (Some ''wallet'')
             (Some ''x'') k False) = k" for k
    by (simp add: Pool_args_def Pool_init_def Let_def)
  have s: "kKeepAliveTimeout example_env = 60" by (simp add: example_env_def)
  show ?thesis
    using m [of 42] toJSON_keepalive [OF m [of 42], of example_env]
      toJSON_keepalive [OF m [of 60], of example_env]
      toJSON_keepalive [OF m [of 0], of example_env]
    by (auto simp: k s IsBool_def)
qed

subsection \<open>Poll interval\<close>

lemma uint64_of_int: "0 \<le> n \<Longrightarrow> n < 2 ^ 64 \<Longrightarrow> uint (word_of_int n :: 64 word) = n"
  by (simp add: uint_word_of_int take_bit_int_eq_self)

lemma toJSON_pollInterval_key:
  "map_of (toJSON E p) kDaemonPollInterval =
     (if m_mode p = MODE_DAEMON then Some (JNum (uint (m_pollInterval p))) else None)"
  by (simp add: toJSON_def key_defs)

lemma getUint64_default:
  assumes "\<And>k. map_of object key = Some (JNum k) \<Longrightarrow> k < 0 \<or> 2 ^ 64 \<le> k"
  shows "getUint64 object key d = d"
proof (cases "map_of object key")
  case None
  then show ?thesis by (simp add: getUint64_def)
next
  case (Some v)
  with assms show ?thesis by (cases v) (auto simp: getUint64_def)
qed

lemma isEqual_pollInterval_update:
  "isEqual p (p\<lparr> m_pollInterval := v \<rparr>) \<longleftrightarrow> v = m_pollInterval p"
  by (auto simp: isEqual_def)

text \<open>
  C10, as it holds on the code. For an object with a valid url, whatever the derived
  mode: when the \<open>daemon-poll-interval\<close> field holds an unsigned 64-bit integer, the
  decoded config stores that value as its poll interval; when the field is absent or
  holds anything else (a negative or larger number, a string, a boolean), it stores the
  default poll interval. The stored value takes part in \<open>isEqual\<close>: the decoded config
  is equal to a copy with poll interval \<open>v\<close> iff \<open>v\<close> is the stored value. The encoding of
  the decoded config has a \<open>daemon-poll-interval\<close> field iff the mode is DAEMON.
\<close>

theorem decode_pollInterval:
  assumes "Url_isValid E (Url_parse E (getString object kUrl))"
  shows "(map_of object kDaemonPollInterval = Some (JNum n) \<and> 0 \<le> n \<and> n < 2 ^ 64 \<longrightarrow>
            m_pollInterval (Pool_json E object) = word_of_int n
            \<and> uint (m_pollInterval (Pool_json E object)) = n)
     \<and> ((\<forall>k. map_of object kDaemonPollInterval = Some (JNum k) \<longrightarrow> k < 0 \<or> 2 ^ 64 \<le> k) \<longrightarrow>
            m_pollInterval (Pool_json E object) = kDefaultPollInterval E)
     \<and> (isEqual (Pool_json E object) ((Pool_json E object)\<lparr> m_pollInterval := v \<rparr>)
            \<longleftrightarrow> v = m_pollInterval (Pool_json E object))
     \<and> (map_of (toJSON E (Pool_json E object)) kDaemonPollInterval \<noteq> None
            \<longleftrightarrow> m_mode (Pool_json E object) = MODE_DAEMON)"
proof -
  note stored = Pool_json_valid(6) [OF assms]
  have a: "map_of object kDaemonPollInterval = Some (JNum n) \<and> 0 \<le> n \<and> n < 2 ^ 64 \<longrightarrow>
            m_pollInterval (Pool_json E object) = word_of_int n
            \<and> uint (m_pollInterval (Pool_json E object)) = n"
    by (simp add: stored getUint64_def uint64_of_int)
  have b: "(\<forall>k. map_of object kDaemonPollInterval = Some (JNum k) \<longrightarrow> k < 0 \<or> 2 ^ 64 \<le> k) \<longrightarrow>
            m_pollInterval (Pool_json E object) = kDefaultPollInterval E"
    unfolding stored by (intro impI getUint64_default) blast
  have c: "isEqual (Pool_json E object) ((Pool_json E object)\<lparr> m_pollInterval := v \<rparr>)
            \<longleftrightarrow> v = m_pollInterval (Pool_json E object)"
    by (rule isEqual_pollInterval_update)
  have d: "map_of (toJSON E (Pool_json E object)) kDaemonPollInterval \<noteq> None
            \<longleftrightarrow> m_mode (Pool_json E object) = MODE_DAEMON"
    by (simp add: toJSON_pollInterval_key)
  show ?thesis by (intro conjI a b c d)
qed

lemma example_poll_pool_config:
  "Pool_json example_env
     [(kUrl, JString ''pool.example.com:3333''), (kDaemonPollInterval, JNum 5000)] =
   \<lparr> m_keepAlive = 0, m_flags = {FLAG_ENABLED}, m_mode = MODE_POOL, m_fingerprint = None,
     m_password = None, m_rigId = None, m_user = None, m_pollInterval = 5000,
     m_url = \<lparr> u_host = Some ''pool.example.com'', u_port = 3333, u_tls = False,
               u_url = Some ''pool.example.com:3333'' \<rparr>,
     m_daemon = Url_invalid \<rparr>"
  by (simp add: decode_defs key_defs getter_defs example_defs Let_def)

text \<open>
  A POOL config and a SELF_SELECT config that store the poll interval of their objects,
  5000 and 7000; the POOL one is equal to its copy with 5000 and not to its copy with
  1000, and its encoding does not carry the field. An object whose field is the string
  \<open>5000\<close> gives the default, 1000.
\<close>

theorem decode_pollInterval_witness:
  "Url_isValid example_env
     (Url_parse example_env
        (getString [(kUrl, JString ''pool.example.com:3333''),
                    (kDaemonPollInterval, JNum 5000)] kUrl))
   \<and> m_mode (Pool_json example_env
        [(kUrl, JString ''pool.example.com:3333''), (kDaemonPollInterval, JNum 5000)])
       = MODE_POOL
   \<and> m_pollInterval (Pool_json example_env
        [(kUrl, JString ''pool.example.com:3333''), (kDaemonPollInterval, JNum 5000)]) = 5000
   \<and> isEqual
        (Pool_json example_env
           [(kUrl, JString ''pool.example.com:3333''), (kDaemonPollInterval, JNum 5000)])
        ((Pool_json example_env
           [(kUrl, JString ''pool.example.com:3333''), (kDaemonPollInterval, JNum 5000)])
         \<lparr> m_pollInterval := 5000 \<rparr>)
   \<and> \<not> isEqual
        (Pool_json example_env
           [(kUrl, JString ''pool.example.com:3333''), (kDaemonPollInterval, JNum 5000)])
        ((Pool_json example_env
           [(kUrl, JString ''pool.example.com:3333''), (kDaemonPollInterval, JNum 5000)])
         \<lparr> m_pollInterval := 1000 \<rparr>)
   \<and> map_of (toJSON example_env (Pool_json example_env
        [(kUrl, JString ''pool.example.com:3333''), (kDaemonPollInterval, JNum 5000)]))
        kDaemonPollInterval = None
   \<and> m_mode (Pool_json example_env
        [(kUrl, JString ''pool.example.com:3333''),
         (kSelfSelect, JString ''daemon.example.com:18081''),
         (kDaemonPollInterval, JNum 7000)]) = MODE_SELF_SELECT
   \<and> m_pollInterval (Pool_json example_env
        [(kUrl, JString ''pool.example.com:3333''),
         (kSelfSelect, JString ''daemon.example.com:18081''),
         (kDaemonPollInterval, JNum 7000)]) = 7000
   \<and> m_pollInterval (Pool_json example_env
        [(kUrl, JString ''pool.example.com:3333''),
         (kDaemonPollInterval, JString ''5000'')]) = 1000"
proof -
  let ?o1 = "[(kUrl, JString ''pool.example.com:3333''), (kDaemonPollInterval, JNum 5000)]"
  let ?o2 = "[(kUrl, JString ''pool.example.com:3333''),
              (kSelfSelect, JString ''daemon.example.com:18081''),
              (kDaemonPollInterval, JNum 7000)]"
  let ?o3 = "[(kUrl, JString ''pool.example.com:3333''),
              (kDaemonPollInterval, JString ''5000'')]"
  have v1: "Url_isValid example_env (Url_parse example_env (getString ?o1 kUrl))"
    by (simp add: key_defs getter_defs example_defs)
  have v2: "Url_isValid example_env (Url_parse example_env (getString ?o2 kUrl))"
    by (simp add: key_defs getter_defs example_defs)
  have v3: "Url_isValid example_env (Url_parse example_env (getString ?o3 kUrl))"
    by (simp add: key_defs getter_defs example_defs)
  have f1: "map_of ?o1 kDaemonPollInterval = Some (JNum 5000) \<and> (0::int) \<le> 5000
              \<and> (5000::int) < 2 ^ 64"
    by (simp add: key_defs)
  have f2: "map_of ?o2 kDaemonPollInterval = Some (JNum 7000) \<and> (0::int) \<le> 7000
              \<and> (7000::int) < 2 ^ 64"
    by (simp add: key_defs)
  have f3: "\<forall>k. map_of ?o3 kDaemonPollInterval = Some (JNum k) \<longrightarrow> k < 0 \<or> 2 ^ 64 \<le> k"
    by (simp add: key_defs)
  have m1: "m_mode (Pool_json example_env ?o1) = MODE_POOL"
    unfolding example_poll_pool_config by simp
  have m2: "m_mode (Pool_json example_env ?o2) = MODE_SELF_SELECT"
    by (simp add: decode_defs key_defs getter_defs example_defs Let_def)
  have d: "kDefaultPollInterval example_env = 1000"
    by (simp add: example_env_def)
  note t1 = decode_pollInterval [OF v1, of 5000]
  have p1: "m_pollInterval (Pool_json example_env ?o1) = 5000"
    using t1 [of 0] f1 by simp
  have e1: "isEqual (Pool_json example_env ?o1)
              ((Pool_json example_env ?o1)\<lparr> m_pollInterval := 5000 \<rparr>)"
    using t1 [of 5000] p1 by simp
  have n1: "\<not> isEqual (Pool_json example_env ?o1)
              ((Pool_json example_env ?o1)\<lparr> m_pollInterval := 1000 \<rparr>)"
    using t1 [of 1000] p1 by simp
  have j1: "map_of (toJSON example_env (Pool_json example_env ?o1)) kDaemonPollInterval = None"
    using t1 [of 0] m1 by simp
  have p2: "m_pollInterval (Pool_json example_env ?o2) = 7000"
    using decode_pollInterval [OF v2, of 7000 0] f2 by simp
  have p3: "m_pollInterval (Pool_json example_env ?o3) = 1000"
    using decode_pollInterval [OF v3, of 0 0] f3 d by simp
  show ?thesis by (intro conjI v1 m1 p1 e1 n1 j1 m2 p2 p3)
qed

text \<open>
  The statement for any field fails: an object with a valid url whose
  \<open>daemon-poll-interval\<close> field holds \<open>-1\<close> decodes to the default poll interval, 1000,
  which is neither \<open>-1\<close> nor its 64-bit wrap-around.
\<close>

theorem decode_pollInterval_counterexample:
  "Url_isValid example_env
     (Url_parse example_env
        (getString [(kUrl, JString ''pool.example.com:3333''),
                    (kDaemonPollInterval, JNum (- 1))] kUrl))
   \<and> map_of [(kUrl, JString ''pool.example.com:3333''), (kDaemonPollInterval, JNum (- 1))]
        kDaemonPollInterval = Some (JNum (- 1))
   \<and> m_pollInterval (Pool_json example_env
        [(kUrl, JString ''pool.example.com:3333''), (kDaemonPollInterval, JNum (- 1))])
       = kDefaultPollInterval example_env
   \<and> uint (m_pollInterval (Pool_json example_env
        [(kUrl, JString ''pool.example.com:3333''), (kDaemonPollInterval, JNum (- 1))]))
       = 1000
   \<and> m_pollInterval (Pool_json example_env
        [(kUrl, JString ''pool.example.com:3333''), (kDaemonPollInterval, JNum (- 1))])
       \<noteq> word_of_int (- 1)"
  by (simp add: decode_defs key_defs getter_defs example_defs Let_def)

subsection \<open>Printable name\<close>

lemma to_string_codes [simp]:
  "to_string 31 = ''31''" "to_string 32 = ''32''" "to_string 36 = ''36''"
  by (simp_all add: to_string_def to_string_nat.simps)

text \<open>
  C8, as it holds on the code. When the endpoint has a string, the main segment is
  bright green for an enabled TLS config, bright cyan for an enabled plaintext one and
  bright red for a disabled one. In SELF_SELECT mode the segment of the daemon endpoint
  follows, bright green when the daemon endpoint is TLS and bright cyan otherwise:
  whether the config is enabled plays no part in it.
\<close>

theorem printableName_colours:
  assumes "url E p = Some u"
    and "m_mode p = MODE_SELF_SELECT \<longrightarrow> Url_url E (m_daemon p) = Some d"
  shows "printableName E p =
     Some (coloured E (if isEnabled E p
                       then (if isTLS p then BrightGreen else BrightCyan)
                       else BrightRed) u
           @ (if m_mode p = MODE_SELF_SELECT
              then '' self-select ''
                   @ coloured E (if Url_isTLS E (m_daemon p) then BrightGreen else BrightCyan) d
              else []))"
  using assms by (simp add: printableName_def coloured_def)

text \<open>An enabled TLS self-select config with a plaintext daemon endpoint.\<close>

theorem printableName_colours_witness:
  "url example_env
     (Pool_json example_env
        [(kUrl, JString ''pool.example.com:3333''),
         (kSelfSelect, JString ''daemon.example.com:18081''),
         (kTls, JBool True)]) = Some ''pool.example.com:3333''
   \<and> printableName example_env
     (Pool_json example_env
        [(kUrl, JString ''pool.example.com:3333''),
         (kSelfSelect, JString ''daemon.example.com:18081''),
         (kTls, JBool True)])
     = Some (coloured example_env BrightGreen ''pool.example.com:3333''
             @ '' self-select ''
             @ coloured example_env BrightCyan ''daemon.example.com:18081'')"
  using printableName_colours [of example_env
      "Pool_json example_env
        [(kUrl, JString ''pool.example.com:3333''),
         (kSelfSelect, JString ''daemon.example.com:18081''),
         (kTls, JBool True)]"
      "''pool.example.com:3333''" "''daemon.example.com:18081''"]
  by (simp add: decode_defs key_defs getter_defs example_defs url_def isEnabled_def)

text \<open>
  A disabled self-select config: the main segment is bright red, and the daemon segment
  is bright cyan where the three-way choice would make it bright red.
\<close>

theorem printableName_daemon_segment_counterexample:
  "printableName example_env
     (Pool_json example_env
        [(kUrl, JString ''pool.example.com:3333''),
         (kSelfSelect, JString ''daemon.example.com:18081''),
         (kEnabled, JBool False)])
     = Some (coloured example_env BrightRed ''pool.example.com:3333''
             @ '' self-select ''
             @ coloured example_env BrightCyan ''daemon.example.com:18081'')
   \<and> printableName_spec example_env
     (Pool_json example_env
        [(kUrl, JString ''pool.example.com:3333''),
         (kSelfSelect, JString ''daemon.example.com:18081''),
         (kEnabled, JBool False)])
     = Some (coloured example_env BrightRed ''pool.example.com:3333''
             @ '' self-select ''
             @ coloured example_env BrightRed ''daemon.example.com:18081'')
   \<and> printableName example_env
     (Pool_json example_env
        [(kUrl, JString ''pool.example.com:3333''),
         (kSelfSelect, JString ''daemon.example.com:18081''),
         (kEnabled, JBool False)])
     \<noteq> printableName_spec example_env
     (Pool_json example_env
        [(kUrl, JString ''pool.example.com:3333''),
         (kSelfSelect, JString ''daemon.example.com:18081''),
         (kEnabled, JBool False)])"
  by (simp add: decode_defs key_defs getter_defs example_defs url_def isEnabled_def
      printableName_def printableName_spec_def coloured_def colour_choice_def)

subsection \<open>Decoding an encoded config\<close>

text \<open>What the getters read in an encoded object, in DAEMON mode and in the other modes.\<close>

lemma String_toJSON_inverse:
  "(case String_toJSON s of JString x \<Rightarrow> Some x | _ \<Rightarrow> None) = s"
  by (cases s) (simp_all add: String_toJSON_def)

lemma uint64_bound: "uint (w :: 64 word) < 18446744073709551616"
  using uint_lt2p [of w] by simp

lemma getters_toJSON_daemon:
  assumes "m_mode c = MODE_DAEMON"
  shows "getString (toJSON E c) kUrl = url E c"
    and "getString (toJSON E c) kUser = m_user c"
    and "getString (toJSON E c) kPass = None"
    and "getString (toJSON E c) kRigId = None"
    and "getString (toJSON E c) kFingerprint = m_fingerprint c"
    and "getString (toJSON E c) kSelfSelect = None"
    and "getUint64 (toJSON E c) kDaemonPollInterval d = m_pollInterval c"
    and "getBool (toJSON E c) kEnabled True = bitset_test FLAG_ENABLED (m_flags c)"
    and "getBool (toJSON E c) kTls False = isTLS c"
    and "getBool (toJSON E c) kDaemon False = True"
    and "getValue (toJSON E c) kKeepalive = JNull"
  unfolding toJSON_daemon [OF assms]
  by (simp_all add: key_defs String_toJSON_inverse uint64_bound getter_defs)

lemma keepalive_roundtrip:
  fixes k :: "32 word"
  shows "IsInt (JNum (sint k))" and "GetInt (JNum (sint k)) = k"
  using sint_range_size [of k] sint_lt [of k] sint_ge [of k]
  by (simp_all add: IsInt_def GetInt_def)

lemma getters_toJSON_other:
  assumes "m_mode c \<noteq> MODE_DAEMON"
  shows "getString (toJSON E c) kUrl = url E c"
    and "getString (toJSON E c) kUser = m_user c"
    and "getString (toJSON E c) kPass = m_password c"
    and "getString (toJSON E c) kRigId = m_rigId c"
    and "getString (toJSON E c) kFingerprint = m_fingerprint c"
    and "getString (toJSON E c) kSelfSelect = Url_url E (m_daemon c)"
    and "getUint64 (toJSON E c) kDaemonPollInterval d = d"
    and "getBool (toJSON E c) kEnabled True = bitset_test FLAG_ENABLED (m_flags c)"
    and "getBool (toJSON E c) kTls False = isTLS c"
    and "getBool (toJSON E c) kDaemon False = False"
    and "getValue (toJSON E c) kKeepalive =
           (if m_keepAlive c = 0 \<or> m_keepAlive c = kKeepAliveTimeout E
            then JBool (0 < sint (m_keepAlive c))
            else JNum (sint (m_keepAlive c)))"
  unfolding toJSON_other [OF assms]
  by (simp_all add: key_defs String_toJSON_inverse uint64_bound getter_defs)

text \<open>
  The flag set is rebuilt from the two emitted booleans and the TLS status of the
  endpoint; the keep-alive is rebuilt from the emitted boolean or integer.
\<close>

lemma Pool_json_m_url: "m_url (Pool_json E object) = Url_parse E (getString object kUrl)"
  by (cases "Url_isValid E (Url_parse E (getString object kUrl))")
     (simp_all add: Pool_json_valid(1) Pool_json_invalid Pool_url_def)

lemma flags_roundtrip:
  "bitset_set FLAG_TLS (bitset_test FLAG_TLS F \<or> t)
     (bitset_set FLAG_ENABLED (bitset_test FLAG_ENABLED F) {FLAG_ENABLED}) = F
   \<longleftrightarrow> (t \<longrightarrow> FLAG_TLS \<in> F)"
proof -
  have ex: "x = FLAG_ENABLED \<or> x = FLAG_TLS" for x by (cases x) simp_all
  show ?thesis
    by (auto simp: bitset_set_def bitset_test_def) (metis ex)+
qed

lemma roundtrip_daemon:
  assumes "isValid E c" and "m_mode c = MODE_DAEMON"
  shows "isEqual (Pool_json E (toJSON E c)) c \<longleftrightarrow>
           Url_parse E (url E c) = m_url c
         \<and> (Url_isTLS E (m_url c) \<longrightarrow> isTLS c)
         \<and> m_password c = None \<and> m_rigId c = None \<and> m_keepAlive c = 0
         \<and> m_daemon c = Url_parse E None
         \<and> \<not> Url_isValid E (m_daemon c)"
proof (cases "Url_parse E (url E c) = m_url c")
  case False
  then have "m_url (Pool_json E (toJSON E c)) \<noteq> m_url c"
    by (simp add: Pool_json_m_url getters_toJSON_daemon(1) [OF assms(2)])
  then show ?thesis using False by (auto simp: isEqual_def)
next
  case True
  have v: "Url_isValid E (Url_parse E (getString (toJSON E c) kUrl))"
    using assms(1) True by (simp add: getters_toJSON_daemon(1) [OF assms(2)] isValid_def)
  note f = Pool_json_valid [OF v] and g = getters_toJSON_daemon [OF assms(2)]
  have fl: "m_flags (Pool_json E (toJSON E c)) = m_flags c
              \<longleftrightarrow> (Url_isTLS E (m_url c) \<longrightarrow> isTLS c)"
    by (simp add: f(8) g True isTLS_def flags_roundtrip) (simp add: bitset_test_def)
  have md: "m_mode (Pool_json E (toJSON E c)) = m_mode c
              \<longleftrightarrow> \<not> Url_isValid E (Url_parse E None)"
    by (simp add: f(9) g assms(2))
  have ka: "m_keepAlive (Pool_json E (toJSON E c)) = 0"
    by (simp add: f(10) g IsInt_def IsBool_def)
  show ?thesis
    unfolding isEqual_def fl md ka
    by (auto simp: f(1-7) g True)
qed


lemma keepalive_decode_other:
  fixes k K :: "32 word"
  assumes "v = (if k = 0 \<or> k = K then JBool (0 < sint k) else JNum (sint k))"
  shows "(if IsInt v then GetInt v
          else if IsBool v then (if GetBool v then K else 0) else 0) = k
         \<longleftrightarrow> (k = K \<longrightarrow> 0 \<le> sint K)"
proof (cases "k = 0 \<or> k = K")
  case False
  then show ?thesis by (simp add: assms keepalive_roundtrip)
next
  case True
  have z: "sint K = 0 \<longleftrightarrow> K = 0" by (simp add: signed_eq_0_iff)
  show ?thesis using True z
    by (auto simp: assms IsInt_def IsBool_def GetBool_def)
qed

lemma roundtrip_other:
  assumes "isValid E c" and "m_mode c \<noteq> MODE_DAEMON"
  shows "isEqual (Pool_json E (toJSON E c)) c \<longleftrightarrow>
           Url_parse E (url E c) = m_url c
         \<and> (Url_isTLS E (m_url c) \<longrightarrow> isTLS c)
         \<and> m_pollInterval c = kDefaultPollInterval E
         \<and> Url_parse E (Url_url E (m_daemon c)) = m_daemon c
         \<and> (m_mode c = MODE_SELF_SELECT \<longleftrightarrow> Url_isValid E (m_daemon c))
         \<and> (m_keepAlive c = kKeepAliveTimeout E \<longrightarrow> 0 \<le> sint (kKeepAliveTimeout E))"
proof (cases "Url_parse E (url E c) = m_url c")
  case False
  then have "m_url (Pool_json E (toJSON E c)) \<noteq> m_url c"
    by (simp add: Pool_json_m_url getters_toJSON_other(1) [OF assms(2)])
  then show ?thesis using False by (auto simp: isEqual_def)
next
  case True
  have v: "Url_isValid E (Url_parse E (getString (toJSON E c) kUrl))"
    using assms(1) True by (simp add: getters_toJSON_other(1) [OF assms(2)] isValid_def)
  note f = Pool_json_valid [OF v] and g = getters_toJSON_other [OF assms(2)]
  have fl: "m_flags (Pool_json E (toJSON E c)) = m_flags c
              \<longleftrightarrow> (Url_isTLS E (m_url c) \<longrightarrow> isTLS c)"
    by (simp add: f(8) g True isTLS_def flags_roundtrip) (simp add: bitset_test_def)
  have ka: "m_keepAlive (Pool_json E (toJSON E c)) = m_keepAlive c
              \<longleftrightarrow> (m_keepAlive c = kKeepAliveTimeout E \<longrightarrow> 0 \<le> sint (kKeepAliveTimeout E))"
    unfolding f(10) by (rule keepalive_decode_other [OF g(11)])
  have md: "m_daemon (Pool_json E (toJSON E c)) = m_daemon c \<Longrightarrow>
            m_mode (Pool_json E (toJSON E c)) = m_mode c
              \<longleftrightarrow> (m_mode c = MODE_SELF_SELECT \<longleftrightarrow> Url_isValid E (m_daemon c))"
    using assms(2) by (cases "m_mode c") (auto simp: f(7,9) g)
  show ?thesis
    unfolding isEqual_def fl ka
    using md by (auto simp: f(1-7) g True)
qed

text \<open>
  C1, as it holds on the code. For a valid config \<open>c\<close>, decoding the object that
  \<open>toJSON\<close> makes of \<open>c\<close> gives a config that \<open>isEqual\<close> holds equal to \<open>c\<close> exactly when
  \<^item> the endpoint of \<open>c\<close> is what its own string parses to, and the TLS flag of \<open>c\<close>
    is set whenever that endpoint is TLS;
  \<^item> in DAEMON mode, the members that \<open>toJSON\<close> leaves out have the values the
    constructor gives without them: no password, no rig id, keep-alive 0, and the
    daemon endpoint of the null string, which is not valid;
  \<^item> in POOL and SELF_SELECT mode, the poll interval is the default one, the daemon
    endpoint is what its own string parses to, the mode is SELF_SELECT iff that
    endpoint is valid, and a keep-alive equal to the sentinel is not negative.
  The round trip holds in all three modes under these conditions and in none without
  them.
\<close>

theorem roundtrip_iff:
  assumes "isValid E c"
  shows "isEqual (Pool_json E (toJSON E c)) c \<longleftrightarrow>
           Url_parse E (url E c) = m_url c
         \<and> (Url_isTLS E (m_url c) \<longrightarrow> isTLS c)
         \<and> (m_mode c = MODE_DAEMON \<longrightarrow>
              m_password c = None \<and> m_rigId c = None \<and> m_keepAlive c = 0
              \<and> m_daemon c = Url_parse E None \<and> \<not> Url_isValid E (m_daemon c))
         \<and> (m_mode c \<noteq> MODE_DAEMON \<longrightarrow>
              m_pollInterval c = kDefaultPollInterval E
              \<and> Url_parse E (Url_url E (m_daemon c)) = m_daemon c
              \<and> (m_mode c = MODE_SELF_SELECT \<longleftrightarrow> Url_isValid E (m_daemon c))
              \<and> (m_keepAlive c = kKeepAliveTimeout E \<longrightarrow> 0 \<le> sint (kKeepAliveTimeout E)))"
proof (cases "m_mode c = MODE_DAEMON")
  case True
  show ?thesis unfolding roundtrip_daemon [OF assms True] using True by simp
next
  case False
  show ?thesis unfolding roundtrip_other [OF assms False] using False by simp
qed

text \<open>Three decoded configs, one of each mode.\<close>

lemma example_pool_config:
  "Pool_json example_env
     [(kUrl, JString ''pool.example.com:3333''), (kUser, JString ''wallet''),
      (kPass, JString ''x''), (kKeepalive, JBool True)] =
   \<lparr> m_keepAlive = 60, m_flags = {FLAG_ENABLED}, m_mode = MODE_POOL, m_fingerprint = None,
     m_password = Some ''x'', m_rigId = None, m_user = Some ''wallet'',
     m_pollInterval = 1000,
     m_url = \<lparr> u_host = Some ''pool.example.com'', u_port = 3333, u_tls = False,
               u_url = Some ''pool.example.com:3333'' \<rparr>,
     m_daemon = Url_invalid \<rparr>"
  by (simp add: decode_defs key_defs getter_defs example_defs Let_def)

lemma example_daemon_config:
  "Pool_json example_env
     [(kUrl, JString ''pool.example.com:3333''), (kUser, JString ''wallet''),
      (kDaemon, JBool True), (kDaemonPollInterval, JNum 5000)] =
   \<lparr> m_keepAlive = 0, m_flags = {FLAG_ENABLED}, m_mode = MODE_DAEMON, m_fingerprint = None,
     m_password = None, m_rigId = None, m_user = Some ''wallet'',
     m_pollInterval = 5000,
     m_url = \<lparr> u_host = Some ''pool.example.com'', u_port = 3333, u_tls = False,
               u_url = Some ''pool.example.com:3333'' \<rparr>,
     m_daemon = Url_invalid \<rparr>"
  by (simp add: decode_defs key_defs getter_defs example_defs Let_def)

lemma example_self_select_config:
  "Pool_json example_env
     [(kUrl, JString ''pool.example.com:3333''), (kRigId, JString ''rig-1''),
      (kSelfSelect, JString ''daemon.example.com:18081''), (kKeepalive, JNum 42)] =
   \<lparr> m_keepAlive = 42, m_flags = {FLAG_ENABLED}, m_mode = MODE_SELF_SELECT,
     m_fingerprint = None, m_password = None, m_rigId = Some ''rig-1'', m_user = None,
     m_pollInterval = 1000,
     m_url = \<lparr> u_host = Some ''pool.example.com'', u_port = 3333, u_tls = False,
               u_url = Some ''pool.example.com:3333'' \<rparr>,
     m_daemon = \<lparr> u_host = Some ''daemon.example.com'', u_port = 18081, u_tls = False,
               u_url = Some ''daemon.example.com:18081'' \<rparr> \<rparr>"
  by (simp add: decode_defs key_defs getter_defs example_defs Let_def)

lemma example_daemon_password_config:
  "Pool_json example_env
     [(kUrl, JString ''pool.example.com:3333''), (kDaemon, JBool True),
      (kPass, JString ''secret'')] =
   \<lparr> m_keepAlive = 0, m_flags = {FLAG_ENABLED}, m_mode = MODE_DAEMON, m_fingerprint = None,
     m_password = Some ''secret'', m_rigId = None, m_user = None,
     m_pollInterval = 1000,
     m_url = \<lparr> u_host = Some ''pool.example.com'', u_port = 3333, u_tls = False,
               u_url = Some ''pool.example.com:3333'' \<rparr>,
     m_daemon = Url_invalid \<rparr>"
  by (simp add: decode_defs key_defs getter_defs example_defs Let_def)

theorem roundtrip_iff_witness:
  "isValid example_env
       (Pool_json example_env
          [(kUrl, JString ''pool.example.com:3333''), (kUser, JString ''wallet''),
           (kPass, JString ''x''), (kKeepalive, JBool True)])
   \<and> m_mode
       (Pool_json example_env
          [(kUrl, JString ''pool.example.com:3333''), (kUser, JString ''wallet''),
           (kPass, JString ''x''), (kKeepalive, JBool True)]) = MODE_POOL
   \<and> isEqual
       (Pool_json example_env
          (toJSON example_env
             (Pool_json example_env
                [(kUrl, JString ''pool.example.com:3333''), (kUser, JString ''wallet''),
           (kPass, JString ''x''), (kKeepalive, JBool True)])))
       (Pool_json example_env
          [(kUrl, JString ''pool.example.com:3333''), (kUser, JString ''wallet''),
           (kPass, JString ''x''), (kKeepalive, JBool True)])
   \<and> isValid example_env
       (Pool_json example_env
          [(kUrl, JString ''pool.example.com:3333''), (kUser, JString ''wallet''),
           (kDaemon, JBool True), (kDaemonPollInterval, JNum 5000)])
   \<and> m_mode
       (Pool_json example_env
          [(kUrl, JString ''pool.example.com:3333''), (kUser, JString ''wallet''),
           (kDaemon, JBool True), (kDaemonPollInterval, JNum 5000)]) = MODE_DAEMON
   \<and> isEqual
       (Pool_json example_env
          (toJSON example_env
             (Pool_json example_env
                [(kUrl, JString ''pool.example.com:3333''), (kUser, JString ''wallet''),
           (kDaemon, JBool True), (kDaemonPollInterval, JNum 5000)])))
       (Pool_json example_env
          [(kUrl, JString ''pool.example.com:3333''), (kUser, JString ''wallet''),
           (kDaemon, JBool True), (kDaemonPollInterval, JNum 5000)])
   \<and> isValid example_env
       (Pool_json example_env
          [(kUrl, JString ''pool.example.com:3333''), (kRigId, JString ''rig-1''),
           (kSelfSelect, JString ''daemon.example.com:18081''), (kKeepalive, JNum 42)])
   \<and> m_mode
       (Pool_json example_env
          [(kUrl, JString ''pool.example.com:3333''), (kRigId, JString ''rig-1''),
           (kSelfSelect, JString ''daemon.example.com:18081''), (kKeepalive, JNum 42)]) = MODE_SELF_SELECT
   \<and> isEqual
       (Pool_json example_env
          (toJSON example_env
             (Pool_json example_env
                [(kUrl, JString ''pool.example.com:3333''), (kRigId, JString ''rig-1''),
           (kSelfSelect, JString ''daemon.example.com:18081''), (kKeepalive, JNum 42)])))
       (Pool_json example_env
          [(kUrl, JString ''pool.example.com:3333''), (kRigId, JString ''rig-1''),
           (kSelfSelect, JString ''daemon.example.com:18081''), (kKeepalive, JNum 42)])"
proof -
  let ?P = "Pool_json example_env
          [(kUrl, JString ''pool.example.com:3333''), (kUser, JString ''wallet''),
           (kPass, JString ''x''), (kKeepalive, JBool True)]"
  let ?D = "Pool_json example_env
          [(kUrl, JString ''pool.example.com:3333''), (kUser, JString ''wallet''),
           (kDaemon, JBool True), (kDaemonPollInterval, JNum 5000)]"
  let ?S = "Pool_json example_env
          [(kUrl, JString ''pool.example.com:3333''), (kRigId, JString ''rig-1''),
           (kSelfSelect, JString ''daemon.example.com:18081''), (kKeepalive, JNum 42)]"
  have vP: "isValid example_env ?P" and mP: "m_mode ?P = MODE_POOL"
    unfolding example_pool_config by (simp_all add: isValid_def example_defs)
  have vD: "isValid example_env ?D" and mD: "m_mode ?D = MODE_DAEMON"
    unfolding example_daemon_config by (simp_all add: isValid_def example_defs)
  have vS: "isValid example_env ?S" and mS: "m_mode ?S = MODE_SELF_SELECT"
    unfolding example_self_select_config by (simp_all add: isValid_def example_defs)
  have cP: "Url_parse example_env (url example_env ?P) = m_url ?P
         \<and> (Url_isTLS example_env (m_url ?P) \<longrightarrow> isTLS ?P)
         \<and> (m_mode ?P = MODE_DAEMON \<longrightarrow>
              m_password ?P = None \<and> m_rigId ?P = None \<and> m_keepAlive ?P = 0
              \<and> m_daemon ?P = Url_parse example_env None
              \<and> \<not> Url_isValid example_env (m_daemon ?P))
         \<and> (m_mode ?P \<noteq> MODE_DAEMON \<longrightarrow>
              m_pollInterval ?P = kDefaultPollInterval example_env
              \<and> Url_parse example_env (Url_url example_env (m_daemon ?P)) = m_daemon ?P
              \<and> (m_mode ?P = MODE_SELF_SELECT \<longleftrightarrow> Url_isValid example_env (m_daemon ?P))
              \<and> (m_keepAlive ?P = kKeepAliveTimeout example_env
                     \<longrightarrow> 0 \<le> sint (kKeepAliveTimeout example_env)))"
    unfolding example_pool_config by (simp add: url_def isTLS_def bitset_test_def example_defs)
  have cD: "Url_parse example_env (url example_env ?D) = m_url ?D
         \<and> (Url_isTLS example_env (m_url ?D) \<longrightarrow> isTLS ?D)
         \<and> (m_mode ?D = MODE_DAEMON \<longrightarrow>
              m_password ?D = None \<and> m_rigId ?D = None \<and> m_keepAlive ?D = 0
              \<and> m_daemon ?D = Url_parse example_env None
              \<and> \<not> Url_isValid example_env (m_daemon ?D))
         \<and> (m_mode ?D \<noteq> MODE_DAEMON \<longrightarrow>
              m_pollInterval ?D = kDefaultPollInterval example_env
              \<and> Url_parse example_env (Url_url example_env (m_daemon ?D)) = m_daemon ?D
              \<and> (m_mode ?D = MODE_SELF_SELECT \<longleftrightarrow> Url_isValid example_env (m_daemon ?D))
              \<and> (m_keepAlive ?D = kKeepAliveTimeout example_env
                     \<longrightarrow> 0 \<le> sint (kKeepAliveTimeout example_env)))"
    unfolding example_daemon_config by (simp add: url_def isTLS_def bitset_test_def example_defs)
  have cS: "Url_parse example_env (url example_env ?S) = m_url ?S
         \<and> (Url_isTLS example_env (m_url ?S) \<longrightarrow> isTLS ?S)
         \<and> (m_mode ?S = MODE_DAEMON \<longrightarrow>
              m_password ?S = None \<and> m_rigId ?S = None \<and> m_keepAlive ?S = 0
              \<and> m_daemon ?S = Url_parse example_env None
              \<and> \<not> Url_isValid example_env (m_daemon ?S))
         \<and> (m_mode ?S \<noteq> MODE_DAEMON \<longrightarrow>
              m_pollInterval ?S = kDefaultPollInterval example_env
              \<and> Url_parse example_env (Url_url example_env (m_daemon ?S)) = m_daemon ?S
              \<and> (m_mode ?S = MODE_SELF_SELECT \<longleftrightarrow> Url_isValid example_env (m_daemon ?S))
              \<and> (m_keepAlive ?S = kKeepAliveTimeout example_env
                     \<longrightarrow> 0 \<le> sint (kKeepAliveTimeout example_env)))"
    unfolding example_self_select_config
    by (simp add: url_def isTLS_def bitset_test_def example_defs)
  have eP: "isEqual (Pool_json example_env (toJSON example_env ?P)) ?P"
    by (rule iffD2 [OF roundtrip_iff [OF vP] cP])
  have eD: "isEqual (Pool_json example_env (toJSON example_env ?D)) ?D"
    by (rule iffD2 [OF roundtrip_iff [OF vD] cD])
  have eS: "isEqual (Pool_json example_env (toJSON example_env ?S)) ?S"
    by (rule iffD2 [OF roundtrip_iff [OF vS] cS])
  show ?thesis
    by (intro conjI vP mP eP vD mD eD vS mS eS)
qed

text \<open>
  The round trip as stated without conditions fails: a valid DAEMON config decoded from
  an object with a \<open>pass\<close> field keeps the password, its encoding has no \<open>pass\<close> field,
  and decoding that gives a config without password.
\<close>

theorem roundtrip_daemon_password_counterexample:
  "isValid example_env
     (Pool_json example_env
        [(kUrl, JString ''pool.example.com:3333''), (kDaemon, JBool True),
         (kPass, JString ''secret'')])
   \<and> m_mode
     (Pool_json example_env
        [(kUrl, JString ''pool.example.com:3333''), (kDaemon, JBool True),
         (kPass, JString ''secret'')]) = MODE_DAEMON
   \<and> m_password
     (Pool_json example_env
        [(kUrl, JString ''pool.example.com:3333''), (kDaemon, JBool True),
         (kPass, JString ''secret'')]) = Some ''secret''
   \<and> m_password
     (Pool_json example_env
        (toJSON example_env
           (Pool_json example_env
              [(kUrl, JString ''pool.example.com:3333''), (kDaemon, JBool True),
               (kPass, JString ''secret'')]))) = None
   \<and> \<not> isEqual
     (Pool_json example_env
        (toJSON example_env
           (Pool_json example_env
              [(kUrl, JString ''pool.example.com:3333''), (kDaemon, JBool True),
               (kPass, JString ''secret'')])))
     (Pool_json example_env
        [(kUrl, JString ''pool.example.com:3333''), (kDaemon, JBool True),
         (kPass, JString ''secret'')])"
  unfolding example_daemon_password_config
  by (simp add: toJSON_def url_def String_toJSON_def isEqual_def decode_defs key_defs
        getter_defs example_defs Let_def)

end
